theory Spec2Isabelle
  imports Main
begin

section \<open>The namespace-join wrapper \<open>xsetns\<close> of cmd/starter/c/setns.c\<close>

text \<open>
  The C file defines one function, \<open>xsetns(int fd, int nstype)\<close>, in two variants chosen by
  the preprocessor: when \<open>__NR_setns\<close> is defined, the function is a single raw
  \<open>syscall(__NR_setns, fd, nstype)\<close> whose result it returns; otherwise it logs a warning
  with \<open>singularity_message\<close>, assigns \<open>errno = ENOSYS\<close> and returns \<open>-1\<close>.

  The function touches three things outside itself: the libc function \<open>syscall\<close>, the
  logging macro \<open>singularity_message\<close> of message.h, and the variable \<open>errno\<close>. None of
  the first two is defined in this file of the repository, so both are parameters of the
  model, as are the constants \<open>__NR_setns\<close>, \<open>ENOSYS\<close> and \<open>WARNING\<close> that come from
  headers.
\<close>

subsection \<open>Process state\<close>

text \<open>
  A call that \<open>xsetns\<close> makes to the outside: a system call with its number and its
  arguments, or a message with its level and its text.
\<close>

datatype call = Syscall int "int list" | Message int string

text \<open>
  The state of the calling process. \<open>errno\<close> is the C variable. \<open>world\<close> is everything
  else that \<open>syscall\<close> and \<open>singularity_message\<close> may read or change (namespace
  membership, the descriptor table, what was written to the terminal, ...); the model
  never looks inside it. \<open>trace\<close> records, in order, the calls made to the outside; only
  the two functions \<open>call_syscall\<close> and \<open>call_message\<close> below extend it.
\<close>

record 'w process =
  errno :: int
  world :: 'w
  trace :: "call list"

subsection \<open>The platform: what the headers and the libraries provide\<close>

text \<open>
  \<^item> \<open>NR_setns\<close>: the value of the macro \<open>__NR_setns\<close> from \<open>sys/syscall.h\<close>, \<open>None\<close>
    when the headers of the build do not define it (\<open>#ifdef __NR_setns\<close> fails).
  \<^item> \<open>ENOSYS\<close>: the constant of \<open>errno.h\<close>.
  \<^item> \<open>WARNING\<close>: the message level of message.h.
  \<^item> \<open>syscall\<close>: the libc function. It gets the number and the arguments, sees and may
    change \<open>errno\<close> and the world, and returns a \<open>long\<close>.
  \<^item> \<open>singularity_message\<close>: the logging macro of message.h, with its level and its
    format string. It returns nothing; it sees and may change \<open>errno\<close> and the world.
\<close>

record 'w platform =
  NR_setns :: "int option"
  ENOSYS :: int
  WARNING :: int
  syscall :: "int \<Rightarrow> int list \<Rightarrow> int \<times> 'w \<Rightarrow> int \<times> int \<times> 'w"
  singularity_message :: "int \<Rightarrow> string \<Rightarrow> int \<times> 'w \<Rightarrow> int \<times> 'w"

text \<open>Calling \<open>syscall\<close>: the call is recorded, and its effect on \<open>errno\<close> and the world kept.\<close>

definition call_syscall :: "'w platform \<Rightarrow> int \<Rightarrow> int list \<Rightarrow> 'w process \<Rightarrow> int \<times> 'w process" where
  "call_syscall P nr args s =
     (case syscall P nr args (errno s, world s) of
        (r, e, w) \<Rightarrow> (r, s\<lparr>errno := e, world := w, trace := trace s @ [Syscall nr args]\<rparr>))"

text \<open>Calling \<open>singularity_message\<close>, likewise.\<close>

definition call_message :: "'w platform \<Rightarrow> int \<Rightarrow> string \<Rightarrow> 'w process \<Rightarrow> 'w process" where
  "call_message P lvl fmt s =
     (case singularity_message P lvl fmt (errno s, world s) of
        (e, w) \<Rightarrow> s\<lparr>errno := e, world := w, trace := trace s @ [Message lvl fmt]\<rparr>)"

subsection \<open>The function\<close>

text \<open>
  \<open>syscall\<close> returns a \<open>long\<close> and \<open>xsetns\<close> returns an \<open>int\<close>: the \<open>return\<close> statement
  converts. A value in the range of \<open>int\<close> is kept; any other is reduced modulo \<open>2^32\<close>
  into that range.
\<close>

definition long_to_int :: "int \<Rightarrow> int" where
  "long_to_int r = (r + 2 ^ 31) mod 2 ^ 32 - 2 ^ 31"

text \<open>Lines 24 to 26: the variant compiled when \<open>__NR_setns\<close> is defined, with value \<open>nr\<close>.\<close>

definition xsetns_supported :: "'w platform \<Rightarrow> int \<Rightarrow> int \<Rightarrow> int \<Rightarrow> 'w process \<Rightarrow> int \<times> 'w process" where
  "xsetns_supported P nr fd nstype s =
     (case call_syscall P nr [fd, nstype] s of (r, s') \<Rightarrow> (long_to_int r, s'))"

text \<open>The text of the warning of line 33, with its final newline.\<close>

definition setns_warning :: string where
  "setns_warning = ''setns() not supported at compile time by kernel at time of building'' @ [CHR 0x0A]"

text \<open>
  Lines 30 to 36: the variant compiled otherwise. \<open>fd\<close> and \<open>nstype\<close> are cast to void
  and not used again.
\<close>

definition xsetns_unsupported :: "'w platform \<Rightarrow> int \<Rightarrow> int \<Rightarrow> 'w process \<Rightarrow> int \<times> 'w process" where
  "xsetns_unsupported P fd nstype s =
     (let s1 = call_message P (WARNING P) setns_warning s;
          s2 = s1\<lparr>errno := ENOSYS P\<rparr>
      in (- 1, s2))"

text \<open>Line 22: the preprocessor keeps one of the two.\<close>

definition xsetns :: "'w platform \<Rightarrow> int \<Rightarrow> int \<Rightarrow> 'w process \<Rightarrow> int \<times> 'w process" where
  "xsetns P fd nstype s =
     (case NR_setns P of
        Some nr \<Rightarrow> xsetns_supported P nr fd nstype s
      | None \<Rightarrow> xsetns_unsupported P fd nstype s)"

text \<open>Whether a recorded call is a message.\<close>

fun is_message :: "call \<Rightarrow> bool" where
  "is_message (Message lvl fmt) = True"
| "is_message (Syscall nr args) = False"

subsection \<open>A sample platform\<close>

text \<open>
  A small concrete world on which the theorems below are instantiated: the identity of
  the namespace the thread is in, the open descriptors with the namespace each refers to,
  and the lines written to the terminal. Its \<open>syscall\<close> knows one system call, number
  308, which moves the thread into the namespace of an open descriptor and fails with
  code 9 on any other descriptor. Its logger appends the text to the terminal and leaves
  25 in \<open>errno\<close>.
\<close>

record sample_world =
  membership :: int
  descriptors :: "(int \<times> int) list"
  terminal :: "string list"

definition sample_syscall :: "int \<Rightarrow> int list \<Rightarrow> int \<times> sample_world \<Rightarrow> int \<times> int \<times> sample_world" where
  "sample_syscall nr args ew =
     (case ew of (e, w) \<Rightarrow>
        if nr = 308 then
          (case args of
             [fd, nstype] \<Rightarrow>
               (case map_of (descriptors w) fd of
                  Some ns \<Rightarrow> (0, e, w\<lparr>membership := ns\<rparr>)
                | None \<Rightarrow> (- 1, 9, w))
           | _ \<Rightarrow> (- 1, 22, w))
        else (- 1, 38, w))"

definition sample_message :: "int \<Rightarrow> string \<Rightarrow> int \<times> sample_world \<Rightarrow> int \<times> sample_world" where
  "sample_message lvl fmt ew = (case ew of (e, w) \<Rightarrow> (25, w\<lparr>terminal := terminal w @ [fmt]\<rparr>))"

definition sample_supported :: "sample_world platform" where
  "sample_supported =
     \<lparr>NR_setns = Some 308, ENOSYS = 38, WARNING = - 2,
      syscall = sample_syscall, singularity_message = sample_message\<rparr>"

definition sample_unsupported :: "sample_world platform" where
  "sample_unsupported = sample_supported\<lparr>NR_setns := None\<rparr>"

definition sample_start :: "sample_world process" where
  "sample_start =
     \<lparr>errno = 0,
      world = \<lparr>membership = 1, descriptors = [(3, 7)], terminal = []\<rparr>,
      trace = []\<rparr>"

section \<open>Properties\<close>

subsection \<open>Auxiliary facts\<close>

lemma long_to_int_in_range:
  assumes "- (2 ^ 31) \<le> r" and "r < 2 ^ 31"
  shows "long_to_int r = r"
proof -
  from assms have "0 \<le> r + 2 ^ 31" and "r + 2 ^ 31 < 2 ^ 32" by simp_all
  then have "(r + 2 ^ 31) mod 2 ^ 32 = r + 2 ^ 31" by (rule mod_pos_pos_trivial)
  then show ?thesis by (simp add: long_to_int_def)
qed

lemma xsetns_Some:
  assumes "NR_setns P = Some nr"
  shows "xsetns P fd nstype s =
           (long_to_int (fst (syscall P nr [fd, nstype] (errno s, world s))),
            s\<lparr>errno := fst (snd (syscall P nr [fd, nstype] (errno s, world s))),
              world := snd (snd (syscall P nr [fd, nstype] (errno s, world s))),
              trace := trace s @ [Syscall nr [fd, nstype]]\<rparr>)"
  using assms
  by (simp add: xsetns_def xsetns_supported_def call_syscall_def split: prod.splits)

lemma xsetns_None:
  assumes "NR_setns P = None"
  shows "xsetns P fd nstype s =
           (- 1,
            s\<lparr>errno := ENOSYS P,
              world := snd (singularity_message P (WARNING P) setns_warning (errno s, world s)),
              trace := trace s @ [Message (WARNING P) setns_warning]\<rparr>)"
  using assms
  by (simp add: xsetns_def xsetns_unsupported_def call_message_def split: prod.splits)

subsection \<open>The build with the system call\<close>

text \<open>
  Claim C1. When \<open>__NR_setns\<close> is defined, \<open>xsetns fd nstype\<close> makes exactly one call
  to the outside, the system call \<open>__NR_setns\<close> with the arguments \<open>fd\<close> and \<open>nstype\<close> as
  they were passed, and hands back what that call reported: \<open>errno\<close> and the world are
  the ones the system call left, whatever the code in \<open>errno\<close> is, and the value returned
  is the value of the system call converted to \<open>int\<close>, which is the value itself whenever
  it fits an \<open>int\<close>, so for 0 (success) and for \<open>-1\<close> (failure, with the code in
  \<open>errno\<close>). Nothing is tried a second time and no code is replaced by another.
\<close>

theorem xsetns_supported_passes_through:
  assumes "NR_setns P = Some nr"
    and "syscall P nr [fd, nstype] (errno s, world s) = (r, e, w)"
  shows "trace (snd (xsetns P fd nstype s)) = trace s @ [Syscall nr [fd, nstype]]
       \<and> errno (snd (xsetns P fd nstype s)) = e
       \<and> world (snd (xsetns P fd nstype s)) = w
       \<and> fst (xsetns P fd nstype s) = long_to_int r
       \<and> (- (2 ^ 31) \<le> r \<and> r < 2 ^ 31 \<longrightarrow> fst (xsetns P fd nstype s) = r)
       \<and> (r = 0 \<longrightarrow> fst (xsetns P fd nstype s) = 0)
       \<and> (r = - 1 \<longrightarrow> fst (xsetns P fd nstype s) = - 1)"
proof -
  have eq: "xsetns P fd nstype s =
      (long_to_int r, s\<lparr>errno := e, world := w, trace := trace s @ [Syscall nr [fd, nstype]]\<rparr>)"
    using assms by (simp add: xsetns_Some)
  have zero: "long_to_int 0 = 0"
    by (rule long_to_int_in_range) simp_all
  have minus_one: "long_to_int (- 1) = - 1"
    by (rule long_to_int_in_range) simp_all
  show ?thesis
    using zero minus_one by (simp add: eq long_to_int_in_range)
qed

theorem xsetns_supported_passes_through_witness:
  "NR_setns sample_supported = Some 308
   \<and> syscall sample_supported 308 [5, 0] (errno sample_start, world sample_start)
       = (- 1, 9, world sample_start)
   \<and> fst (xsetns sample_supported 5 0 sample_start) = - 1
   \<and> errno (snd (xsetns sample_supported 5 0 sample_start)) = 9
   \<and> world (snd (xsetns sample_supported 5 0 sample_start)) = world sample_start
   \<and> trace (snd (xsetns sample_supported 5 0 sample_start)) = [Syscall 308 [5, 0]]"
proof -
  have nr: "NR_setns sample_supported = Some 308"
    by (simp add: sample_supported_def)
  have call: "syscall sample_supported 308 [5, 0] (errno sample_start, world sample_start)
      = (- 1, 9, world sample_start)"
    by (simp add: sample_supported_def sample_syscall_def sample_start_def)
  have tr: "trace sample_start = []"
    by (simp add: sample_start_def)
  show ?thesis
    using xsetns_supported_passes_through [OF nr call] nr call tr by simp
qed

text \<open>
  Claim C10. When \<open>__NR_setns\<close> is defined, \<open>xsetns\<close> logs nothing, whatever the
  arguments and whatever the system call reports: the messages recorded in the trace are
  the same after the call as before, and the result of the call is the same with any other
  logger \<open>L\<close> in place of \<open>singularity_message\<close>, which is therefore never run.
\<close>

theorem xsetns_supported_logs_nothing:
  assumes "NR_setns P = Some nr"
  shows "filter is_message (trace (snd (xsetns P fd nstype s))) = filter is_message (trace s)
       \<and> xsetns (P\<lparr>singularity_message := L\<rparr>) fd nstype s = xsetns P fd nstype s"
proof -
  have "NR_setns (P\<lparr>singularity_message := L\<rparr>) = Some nr"
    using assms by simp
  then have "xsetns (P\<lparr>singularity_message := L\<rparr>) fd nstype s = xsetns P fd nstype s"
    using assms by (simp add: xsetns_Some)
  moreover have "filter is_message (trace (snd (xsetns P fd nstype s))) = filter is_message (trace s)"
    using assms by (simp add: xsetns_Some)
  ultimately show ?thesis by simp
qed

theorem xsetns_supported_logs_nothing_witness:
  "NR_setns sample_supported = Some 308
   \<and> fst (xsetns sample_supported 3 0 sample_start) = 0
   \<and> filter is_message (trace (snd (xsetns sample_supported 3 0 sample_start))) = []
   \<and> terminal (world (snd (xsetns sample_supported 3 0 sample_start))) = []
   \<and> xsetns (sample_supported\<lparr>singularity_message := (\<lambda>lvl fmt ew. (0, snd ew))\<rparr>) 3 0 sample_start
       = xsetns sample_supported 3 0 sample_start"
proof -
  have nr: "NR_setns sample_supported = Some 308"
    by (simp add: sample_supported_def)
  have tr: "trace sample_start = []"
    by (simp add: sample_start_def)
  have run: "xsetns sample_supported 3 0 sample_start =
      (0, sample_start\<lparr>errno := 0,
            world := \<lparr>membership = 7, descriptors = [(3, 7)], terminal = []\<rparr>,
            trace := [Syscall 308 [3, 0]]\<rparr>)"
    by (simp add: xsetns_def xsetns_supported_def call_syscall_def long_to_int_def
        sample_supported_def sample_syscall_def sample_start_def)
  show ?thesis
    using xsetns_supported_logs_nothing [OF nr, of 3 0 sample_start "\<lambda>lvl fmt ew. (0, snd ew)"] nr tr
    by (simp add: run)
qed

subsection \<open>The build without the system call\<close>

text \<open>
  Claim C2. When \<open>__NR_setns\<close> is not defined, \<open>xsetns fd nstype\<close> makes no system call:
  the one call it records is a message, and its result is the same with any other function
  \<open>k\<close> in place of \<open>syscall\<close>. It logs exactly one message, the warning, at level
  \<open>WARNING\<close>, through \<open>singularity_message\<close>: the world on return is the world that
  this one call of the logger, run on the state of the caller, has left. It leaves
  \<open>ENOSYS\<close> in \<open>errno\<close>, and it returns \<open>-1\<close>.
\<close>

theorem xsetns_unsupported_fails_with_ENOSYS:
  assumes "NR_setns P = None"
  shows "fst (xsetns P fd nstype s) = - 1
       \<and> errno (snd (xsetns P fd nstype s)) = ENOSYS P
       \<and> world (snd (xsetns P fd nstype s))
           = snd (singularity_message P (WARNING P) setns_warning (errno s, world s))
       \<and> trace (snd (xsetns P fd nstype s)) = trace s @ [Message (WARNING P) setns_warning]
       \<and> xsetns (P\<lparr>syscall := k\<rparr>) fd nstype s = xsetns P fd nstype s"
proof -
  have "NR_setns (P\<lparr>syscall := k\<rparr>) = None"
    using assms by simp
  then have "xsetns (P\<lparr>syscall := k\<rparr>) fd nstype s = xsetns P fd nstype s"
    using assms by (simp add: xsetns_None)
  then show ?thesis
    using assms by (simp add: xsetns_None)
qed

theorem xsetns_unsupported_fails_with_ENOSYS_witness:
  "NR_setns sample_unsupported = None
   \<and> fst (xsetns sample_unsupported 3 0 sample_start) = - 1
   \<and> errno (snd (xsetns sample_unsupported 3 0 sample_start)) = 38
   \<and> terminal (world (snd (xsetns sample_unsupported 3 0 sample_start))) = [setns_warning]
   \<and> membership (world (snd (xsetns sample_unsupported 3 0 sample_start))) = 1
   \<and> trace (snd (xsetns sample_unsupported 3 0 sample_start)) = [Message (- 2) setns_warning]"
proof -
  have nr: "NR_setns sample_unsupported = None"
    by (simp add: sample_unsupported_def)
  have vals: "ENOSYS sample_unsupported = 38" "WARNING sample_unsupported = - 2"
    "singularity_message sample_unsupported = sample_message"
    by (simp_all add: sample_unsupported_def sample_supported_def)
  have start: "trace sample_start = []" "terminal (world sample_start) = []"
    "membership (world sample_start) = 1"
    by (simp_all add: sample_start_def)
  have logged: "snd (sample_message (- 2) setns_warning (errno sample_start, world sample_start))
      = (world sample_start)\<lparr>terminal := terminal (world sample_start) @ [setns_warning]\<rparr>"
    by (simp add: sample_message_def)
  show ?thesis
    using xsetns_unsupported_fails_with_ENOSYS [OF nr, of 3 0 sample_start] nr
    by (simp add: vals logged start)
qed

text \<open>
  Claim C4. When \<open>__NR_setns\<close> is not defined, the arguments play no part: from the same
  state, two calls with any two pairs of arguments give the same value and the same state
  (\<open>errno\<close>, the world with what was logged, and the trace).
\<close>

theorem xsetns_unsupported_ignores_arguments:
  assumes "NR_setns P = None"
  shows "xsetns P fd1 nstype1 s = xsetns P fd2 nstype2 s"
  using assms by (simp add: xsetns_None)

theorem xsetns_unsupported_ignores_arguments_witness:
  "NR_setns sample_unsupported = None
   \<and> xsetns sample_unsupported 3 0 sample_start = xsetns sample_unsupported (- 1) 1024 sample_start"
proof -
  have nr: "NR_setns sample_unsupported = None"
    by (simp add: sample_unsupported_def)
  show ?thesis
    using xsetns_unsupported_ignores_arguments [OF nr, of 3 0 sample_start "- 1" 1024] nr by simp
qed

text \<open>
  Claim C9. When \<open>__NR_setns\<close> is not defined, \<open>errno\<close> is assigned after the warning has
  been logged: the logger runs on the \<open>errno\<close> of the caller, not on \<open>ENOSYS\<close>, and the
  value in \<open>errno\<close> on return is \<open>ENOSYS\<close> with any logger \<open>L\<close> in place of
  \<open>singularity_message\<close>, whatever \<open>L\<close> leaves in \<open>errno\<close>.
\<close>

theorem xsetns_unsupported_errno_set_last:
  assumes "NR_setns P = None"
  shows "errno (snd (xsetns (P\<lparr>singularity_message := L\<rparr>) fd nstype s)) = ENOSYS P
       \<and> world (snd (xsetns (P\<lparr>singularity_message := L\<rparr>) fd nstype s))
           = snd (L (WARNING P) setns_warning (errno s, world s))"
proof -
  have "NR_setns (P\<lparr>singularity_message := L\<rparr>) = None"
    using assms by simp
  then show ?thesis
    by (simp add: xsetns_None)
qed

theorem xsetns_unsupported_errno_set_last_witness:
  "NR_setns sample_unsupported = None
   \<and> fst (sample_message (- 2) setns_warning (0, world sample_start)) = 25
   \<and> errno (snd (xsetns (sample_unsupported\<lparr>singularity_message := sample_message\<rparr>) 3 0 sample_start)) = 38"
proof -
  have nr: "NR_setns sample_unsupported = None"
    by (simp add: sample_unsupported_def)
  have val: "ENOSYS sample_unsupported = 38"
    by (simp add: sample_unsupported_def sample_supported_def)
  have clobber: "fst (sample_message (- 2) setns_warning (0, world sample_start)) = 25"
    by (simp add: sample_message_def)
  show ?thesis
    using xsetns_unsupported_errno_set_last [OF nr, of sample_message 3 0 sample_start] nr val clobber
    by simp
qed

text \<open>
  Claim C5. When \<open>__NR_setns\<close> is not defined, \<open>xsetns\<close> changes nothing of the process
  but \<open>errno\<close> and what logging the one warning changes: the state on return is the state
  after that one call of \<open>singularity_message\<close> with \<open>ENOSYS\<close> stored in \<open>errno\<close>, and
  the one call recorded is that message. So every part \<open>obs\<close> of the world that logging
  the warning leaves as it was (the namespaces the thread belongs to, for one) is on
  return what it was before the call.
\<close>

theorem xsetns_unsupported_changes_only_errno:
  assumes "NR_setns P = None"
    and "obs (snd (singularity_message P (WARNING P) setns_warning (errno s, world s))) = obs (world s)"
  shows "snd (xsetns P fd nstype s) = (call_message P (WARNING P) setns_warning s)\<lparr>errno := ENOSYS P\<rparr>
       \<and> trace (snd (xsetns P fd nstype s)) = trace s @ [Message (WARNING P) setns_warning]
       \<and> obs (world (snd (xsetns P fd nstype s))) = obs (world s)"
proof -
  have "snd (xsetns P fd nstype s) = (call_message P (WARNING P) setns_warning s)\<lparr>errno := ENOSYS P\<rparr>"
    using assms(1) by (simp add: xsetns_None call_message_def split: prod.splits)
  moreover have "trace (snd (xsetns P fd nstype s)) = trace s @ [Message (WARNING P) setns_warning]"
    using assms(1) by (simp add: xsetns_None)
  moreover have "obs (world (snd (xsetns P fd nstype s))) = obs (world s)"
    using assms by (simp add: xsetns_None)
  ultimately show ?thesis by blast
qed

theorem xsetns_unsupported_changes_only_errno_witness:
  "NR_setns sample_unsupported = None
   \<and> membership (world (snd (xsetns sample_unsupported 3 0 sample_start))) = 1
   \<and> trace (snd (xsetns sample_unsupported 3 0 sample_start)) = [Message (- 2) setns_warning]
   \<and> terminal (world (snd (xsetns sample_unsupported 3 0 sample_start))) = [setns_warning]"
proof -
  have nr: "NR_setns sample_unsupported = None"
    by (simp add: sample_unsupported_def)
  have vals: "WARNING sample_unsupported = - 2"
    "singularity_message sample_unsupported = sample_message"
    by (simp_all add: sample_unsupported_def sample_supported_def)
  have keeps: "membership (snd (singularity_message sample_unsupported (WARNING sample_unsupported)
      setns_warning (errno sample_start, world sample_start))) = membership (world sample_start)"
    by (simp add: vals sample_message_def)
  have start: "membership (world sample_start) = 1" "trace sample_start = []"
    "terminal (world sample_start) = []"
    by (simp_all add: sample_start_def)
  have logged: "terminal (world (call_message sample_unsupported (- 2) setns_warning sample_start))
      = [setns_warning]"
    by (simp add: call_message_def vals sample_message_def start split: prod.splits)
  note inst = xsetns_unsupported_changes_only_errno [OF nr keeps, of 3 0]
  have st: "snd (xsetns sample_unsupported 3 0 sample_start)
      = (call_message sample_unsupported (- 2) setns_warning sample_start)\<lparr>errno := ENOSYS sample_unsupported\<rparr>"
    using inst [THEN conjunct1] by (simp add: vals)
  have tr: "trace (snd (xsetns sample_unsupported 3 0 sample_start)) = [Message (- 2) setns_warning]"
    using inst [THEN conjunct2, THEN conjunct1] by (simp add: vals start)
  have mem: "membership (world (snd (xsetns sample_unsupported 3 0 sample_start))) = 1"
    using inst [THEN conjunct2, THEN conjunct2] by (simp add: start)
  have "terminal (world (snd (xsetns sample_unsupported 3 0 sample_start))) = [setns_warning]"
    by (simp add: st logged)
  with nr tr mem show ?thesis by blast
qed

subsection \<open>Both builds\<close>

text \<open>
  Claim C8. On either build and for all arguments, \<open>xsetns\<close> does nothing to the
  descriptor: the one call it makes to the outside is the \<open>__NR_setns\<close> system call with
  the descriptor as argument, or the warning; it makes no other system call (none that
  would duplicate or close a descriptor), after a failure as after a success, and nothing
  in the state on return holds the descriptor. So every part \<open>obs\<close> of the world that
  this one call leaves as it was (the set of open descriptors) is on return what it was
  before the call.
\<close>

theorem xsetns_keeps_descriptors:
  assumes "\<And>nr. NR_setns P = Some nr \<Longrightarrow>
      obs (snd (snd (syscall P nr [fd, nstype] (errno s, world s)))) = obs (world s)"
    and "NR_setns P = None \<Longrightarrow>
      obs (snd (singularity_message P (WARNING P) setns_warning (errno s, world s))) = obs (world s)"
  shows "obs (world (snd (xsetns P fd nstype s))) = obs (world s)
       \<and> trace (snd (xsetns P fd nstype s)) = trace s @
           [case NR_setns P of
              Some nr \<Rightarrow> Syscall nr [fd, nstype]
            | None \<Rightarrow> Message (WARNING P) setns_warning]"
proof (cases "NR_setns P")
  case None
  then show ?thesis
    using assms(2) by (simp add: xsetns_None)
next
  case (Some nr)
  then show ?thesis
    using assms(1) by (simp add: xsetns_Some)
qed

theorem xsetns_keeps_descriptors_witness:
  "descriptors (world (snd (xsetns sample_supported 3 0 sample_start))) = [(3, 7)]
   \<and> fst (xsetns sample_supported 3 0 sample_start) = 0
   \<and> trace (snd (xsetns sample_supported 3 0 sample_start)) = [Syscall 308 [3, 0]]
   \<and> descriptors (world (snd (xsetns sample_supported 5 0 sample_start))) = [(3, 7)]
   \<and> fst (xsetns sample_supported 5 0 sample_start) = - 1
   \<and> descriptors (world (snd (xsetns sample_unsupported 3 0 sample_start))) = [(3, 7)]
   \<and> trace (snd (xsetns sample_unsupported 3 0 sample_start)) = [Message (- 2) setns_warning]"
proof -
  have sup: "NR_setns sample_supported = Some 308" "syscall sample_supported = sample_syscall"
    by (simp_all add: sample_supported_def)
  have unsup: "NR_setns sample_unsupported = None" "WARNING sample_unsupported = - 2"
    "singularity_message sample_unsupported = sample_message"
    by (simp_all add: sample_unsupported_def sample_supported_def)
  have start: "descriptors (world sample_start) = [(3, 7)]" "trace sample_start = []"
    by (simp_all add: sample_start_def)
  have k: "descriptors (snd (snd (sample_syscall nr [fd, 0] (errno sample_start, world sample_start))))
      = descriptors (world sample_start)" for nr fd
    by (simp add: sample_syscall_def split: option.splits)
  have m: "descriptors (snd (sample_message lvl fmt (errno sample_start, world sample_start)))
      = descriptors (world sample_start)" for lvl fmt
    by (simp add: sample_message_def)
  have ok: "fst (xsetns sample_supported 3 0 sample_start) = 0"
    by (simp add: xsetns_Some [OF sup(1)] sup(2) sample_syscall_def sample_start_def long_to_int_def)
  have bad: "fst (xsetns sample_supported 5 0 sample_start) = - 1"
    by (simp add: xsetns_Some [OF sup(1)] sup(2) sample_syscall_def sample_start_def long_to_int_def)
  have a: "descriptors (world (snd (xsetns sample_supported 3 0 sample_start))) = [(3, 7)]
      \<and> trace (snd (xsetns sample_supported 3 0 sample_start)) = [Syscall 308 [3, 0]]"
    using xsetns_keeps_descriptors [of sample_supported descriptors 3 0 sample_start]
    by (simp add: sup k start)
  have b: "descriptors (world (snd (xsetns sample_supported 5 0 sample_start))) = [(3, 7)]"
    using xsetns_keeps_descriptors [of sample_supported descriptors 5 0 sample_start]
    by (simp add: sup k start)
  have c: "descriptors (world (snd (xsetns sample_unsupported 3 0 sample_start))) = [(3, 7)]
      \<and> trace (snd (xsetns sample_unsupported 3 0 sample_start)) = [Message (- 2) setns_warning]"
    using xsetns_keeps_descriptors [of sample_unsupported descriptors 3 0 sample_start]
    by (simp add: unsup m start)
  show ?thesis
    using a b c ok bad by simp
qed

end
